theory Spec2Isabelle
  imports Main
begin

section \<open>Go values shared by both packages\<close>

text \<open>
  A Go \<open>error\<close> built by \<open>fmt.Errorf\<close>: its message, and the error it wraps through
  \<open>%w\<close> (none when the format has no \<open>%w\<close>). Errors handed back by libraries have
  the same shape.
\<close>

datatype GoError = GoError (Error: string) (Unwrap: "GoError option")

text \<open>
  A function either returns or panics. A nil pointer is \<open>None\<close>; dereferencing it is a
  panic, as is \<open>regexp.MustCompile\<close> on a pattern that does not compile.
\<close>

datatype 'a outcome = Return 'a | Panic string

definition nil_dereference :: string where
  "nil_dereference = ''runtime error: invalid memory address or nil pointer dereference''"

text \<open>The verb \<open>%d\<close> of \<open>fmt\<close> on a Go \<open>int\<close>: decimal digits, with a sign when negative.\<close>

fun nat_digits :: "nat \<Rightarrow> string" where
  "nat_digits n =
     (if n < 10 then [''0123456789'' ! n]
      else nat_digits (n div 10) @ [''0123456789'' ! (n mod 10)])"

declare nat_digits.simps [simp del]

definition fmt_d :: "int \<Rightarrow> string" where
  "fmt_d i = (if i < 0 then CHR ''-'' # nat_digits (nat (- i)) else nat_digits (nat i))"

section \<open>Package client: data\<close>

text \<open>\<open>const runtimeGroupEndpoint\<close>, \<open>const createRuntimeGroupMethod = http.MethodPost\<close>.\<close>

definition runtimeGroupEndpoint :: string where
  "runtimeGroupEndpoint = ''/create-runtime-group''"

definition createRuntimeGroupMethod :: string where
  "createRuntimeGroupMethod = ''POST''"

record Client =
  BaseUrl :: string
  token :: string

record CreateRuntimeGroupRequest =
  Name :: string
  Description :: string
  ClusterType :: string
  Labels :: "string \<rightharpoonup> string"

text \<open>The anonymous struct of the field \<open>Config\<close> of the response.\<close>

record ResponseConfig =
  ControlPlaneEndpoint :: string
  TelemetryEndpoint :: string

record CreateRuntimeGroupResponse =
  ID :: string
  Name :: string
  Description :: string
  Labels :: "string \<rightharpoonup> string"
  Config :: ResponseConfig
  CreatedAt :: string
  UpdatedAt :: string

text \<open>
  What \<open>encoding/json\<close> is given to encode: a struct is an object whose members are
  named by the \<open>json:"..."\<close> tags, in the order of the fields.
\<close>

datatype jvalue =
    JString string
  | JStringMap "string \<rightharpoonup> string"
  | JObject "(string \<times> jvalue) list"

text \<open>The tags of \<open>CreateRuntimeGroupRequest\<close>.\<close>

definition CreateRuntimeGroupRequest_json :: "CreateRuntimeGroupRequest \<Rightarrow> jvalue" where
  "CreateRuntimeGroupRequest_json r =
     JObject [(''name'', JString (CreateRuntimeGroupRequest.Name r)),
              (''description'', JString (CreateRuntimeGroupRequest.Description r)),
              (''cluster_type'', JString (CreateRuntimeGroupRequest.ClusterType r)),
              (''labels'', JStringMap (CreateRuntimeGroupRequest.Labels r))]"

text \<open>The member names of an object, in order.\<close>

fun member_names :: "jvalue \<Rightarrow> string list" where
  "member_names (JObject ms) = map fst ms"
| "member_names _ = []"

text \<open>
  What \<open>encoding/json\<close> has decoded from a body, seen through the tags of the
  destination: the string stored for a path of keys, and the string map stored for a path
  of keys (Go's zero value where the body has no such member).
\<close>

record Decoded =
  string_at :: "string list \<Rightarrow> string"
  string_map_at :: "string list \<Rightarrow> (string \<rightharpoonup> string)"

text \<open>The tags of \<open>CreateRuntimeGroupResponse\<close>.\<close>

definition CreateRuntimeGroupResponse_json :: "Decoded \<Rightarrow> CreateRuntimeGroupResponse" where
  "CreateRuntimeGroupResponse_json d =
     \<lparr>ID = string_at d [''id''],
      CreateRuntimeGroupResponse.Name = string_at d [''name''],
      CreateRuntimeGroupResponse.Description = string_at d [''description''],
      CreateRuntimeGroupResponse.Labels = string_map_at d [''labels''],
      Config = \<lparr>ControlPlaneEndpoint = string_at d [''config'', ''control_plane_endpoint''],
                TelemetryEndpoint = string_at d [''config'', ''telemetry_endpoint'']\<rparr>,
      CreatedAt = string_at d [''created_at''],
      UpdatedAt = string_at d [''updated_at'']\<rparr>"

text \<open>An \<open>http.Request\<close> and an \<open>http.Response\<close>, as far as the client touches them.\<close>

record Request =
  Method :: string
  URL :: string
  Header :: "string \<rightharpoonup> string"
  Body :: string

record Response =
  StatusCode :: int
  Body :: string

text \<open>The \<open>jwt.Token\<close> the parser hands back; the client reads \<open>Valid\<close> only.\<close>

record Token =
  Valid :: bool

section \<open>The libraries the repository calls\<close>

text \<open>
  None of these is code of the repository, so each is a parameter. A library call that
  returns \<open>(value, error)\<close> is a sum, \<open>Inl\<close> the error.
  \<^item> \<open>url_Parse\<close>: the error of \<open>url.Parse\<close> (the client drops the parsed URL);
  \<^item> \<open>jwt_ParseUnverified\<close>: \<open>new(jwt.Parser).ParseUnverified(s, jwt.MapClaims{})\<close>;
  \<^item> \<open>json_Marshal\<close>, \<open>json_Decode\<close>: \<open>encoding/json\<close>;
  \<^item> \<open>url_JoinPath\<close>: \<open>url.JoinPath base elem\<close>;
  \<^item> \<open>http_NewRequest\<close>: the error of \<open>http.NewRequest method url body\<close>; when there is
    none the request has that method, URL and body and no header;
  \<^item> \<open>http_Do\<close>: \<open>(&http.Client{}).Do\<close>, the remote end included: its answer may depend
    on the requests sent before;
  \<^item> \<open>regexp_Compile\<close>: \<open>regexp.Compile\<close>, giving the compiled pattern's
    \<open>MatchString\<close>;
  \<^item> \<open>attr_String\<close>: the method \<open>String()\<close> of an \<open>attr.Value\<close>;
  \<^item> \<open>State_Set\<close>: the diagnostics of \<open>tfsdk.State.Set\<close>.
\<close>

datatype tfString = StringNull | StringUnknown | StringValue string

datatype tfMap = MapNull | MapUnknown | MapValue "(string \<times> tfString) list"

record RuntimeGroupModel =
  Id :: tfString
  Name :: tfString
  Description :: tfString
  ClusterType :: tfString
  Labels :: tfMap
  ControlPlaneEndpoint :: tfString
  TelemetryEndpoint :: tfString

datatype Severity = SeverityError | SeverityWarning

datatype Diagnostic = Diagnostic (Severity: Severity) (Summary: string) (Detail: string)

record Lib =
  url_Parse :: "string \<Rightarrow> GoError option"
  jwt_ParseUnverified :: "string \<Rightarrow> GoError + Token"
  json_Marshal :: "jvalue \<Rightarrow> GoError + string"
  url_JoinPath :: "string \<Rightarrow> string \<Rightarrow> GoError + string"
  http_NewRequest :: "string \<Rightarrow> string \<Rightarrow> string \<Rightarrow> GoError option"
  http_Do :: "Request list \<Rightarrow> Request \<Rightarrow> GoError + Response"
  json_Decode :: "string \<Rightarrow> GoError + Decoded"
  regexp_Compile :: "string \<Rightarrow> GoError + (string \<Rightarrow> bool)"
  attr_String :: "tfString \<Rightarrow> string"
  State_Set :: "RuntimeGroupModel \<Rightarrow> Diagnostic list"

section \<open>Package client: operations\<close>

text \<open>
  The state the methods of \<open>*Client\<close> run in: the object their receiver points to (a
  pointer receiver may assign to it) and the requests handed to \<open>http.Client.Do\<close> so
  far, oldest first.
\<close>

record world =
  client :: "Client option"
  outbound :: "Request list"

text \<open>\<open>func (c *Client) wrap(msg string, err error) error\<close>; it does not read \<open>c\<close>.\<close>

definition wrap :: "string \<Rightarrow> GoError \<Rightarrow> GoError" where
  "wrap msg err = GoError (''|client error: '' @ msg @ '' -> '' @ Error err) (Some err)"

text \<open>\<open>func (c *Client) codeToErr(code int) error\<close>; it does not read \<open>c\<close>.\<close>

definition codeToErr :: "int \<Rightarrow> GoError option" where
  "codeToErr code =
     (if code \<noteq> 201 \<and> code \<noteq> 200
      then Some (GoError (''HTTP request failed with status code '' @ fmt_d code) None)
      else None)"

text \<open>\<open>func validateBearerToken(tokenString string) error\<close>\<close>

definition validateBearerToken :: "Lib \<Rightarrow> string \<Rightarrow> GoError option" where
  "validateBearerToken lib tokenString =
     (case jwt_ParseUnverified lib tokenString of
        Inl err \<Rightarrow> Some err
      | Inr tok \<Rightarrow> if \<not> Valid tok then Some (GoError ''invalid token'' None) else None)"

text \<open>\<open>func New(baseULR, token string) (*Client, error)\<close>\<close>

definition New :: "Lib \<Rightarrow> string \<Rightarrow> string \<Rightarrow> Client option \<times> GoError option" where
  "New lib baseULR tokenString =
     (case url_Parse lib baseULR of
        Some err \<Rightarrow> (None, Some (wrap ''error parsing base URL'' err))
      | None \<Rightarrow>
          (case validateBearerToken lib tokenString of
             Some err \<Rightarrow> (None, Some (wrap ''error validating bearer token'' err))
           | None \<Rightarrow> (Some \<lparr>BaseUrl = baseULR, token = tokenString\<rparr>, None)))"

text \<open>
  \<open>func (c *Client) do(req *http.Request) (*http.Response, error)\<close>: sets the two
  headers, then hands the request to the transport.
\<close>

definition do :: "Lib \<Rightarrow> Request \<Rightarrow> world \<Rightarrow> (Response option \<times> GoError option) outcome \<times> world" where
  "do lib req w =
     (case client w of
        None \<Rightarrow> (Panic nil_dereference, w)
      | Some c \<Rightarrow>
          (let req' = req\<lparr>Header := (Header req)(''Content-Type'' \<mapsto> ''application/json'',
                                                 ''Authorization'' \<mapsto> ''Bearer '' @ token c)\<rparr>;
               w' = w\<lparr>outbound := outbound w @ [req']\<rparr>
           in case http_Do lib (outbound w) req' of
                Inl err \<Rightarrow> (Return (None, Some (wrap ''making HTTP request'' err)), w')
              | Inr resp \<Rightarrow> (Return (Some resp, None), w')))"

text \<open>
  \<open>func (c *Client) CreateRuntimeGroup(requestBody CreateRuntimeGroupRequest)
  (*CreateRuntimeGroupResponse, error)\<close>. The receiver is first dereferenced at
  \<open>c.BaseUrl\<close>, after the body has been serialised.
\<close>

definition CreateRuntimeGroup ::
  "Lib \<Rightarrow> CreateRuntimeGroupRequest \<Rightarrow> world \<Rightarrow>
   (CreateRuntimeGroupResponse option \<times> GoError option) outcome \<times> world" where
  "CreateRuntimeGroup lib requestBody w =
     (case json_Marshal lib (CreateRuntimeGroupRequest_json requestBody) of
        Inl err \<Rightarrow> (Return (None, Some (wrap '' serializing request body'' err)), w)
      | Inr requestBodyBytes \<Rightarrow>
     (case client w of
        None \<Rightarrow> (Panic nil_dereference, w)
      | Some c \<Rightarrow>
     (case url_JoinPath lib (BaseUrl c) runtimeGroupEndpoint of
        Inl err \<Rightarrow> (Return (None, Some (wrap '' joining base URL and endpoint'' err)), w)
      | Inr endpoint \<Rightarrow>
     (case http_NewRequest lib createRuntimeGroupMethod endpoint requestBodyBytes of
        Some err \<Rightarrow> (Return (None, Some (wrap ''creating HTTP request'' err)), w)
      | None \<Rightarrow>
     (case do lib \<lparr>Method = createRuntimeGroupMethod, URL = endpoint, Header = Map.empty,
                   Body = requestBodyBytes\<rparr> w of
        (Panic p, w') \<Rightarrow> (Panic p, w')
      | (Return (_, Some err), w') \<Rightarrow> (Return (None, Some (wrap ''making HTTP request'' err)), w')
      | (Return (None, None), w') \<Rightarrow> (Panic nil_dereference, w')
      | (Return (Some resp, None), w') \<Rightarrow>
     (case codeToErr (StatusCode resp) of
        Some err \<Rightarrow> (Return (None, Some (wrap ''checking status code'' err)), w')
      | None \<Rightarrow>
     (case json_Decode lib (Response.Body resp) of
        Inl err \<Rightarrow> (Return (None, Some (wrap ''decoding response JSON'' err)), w')
      | Inr d \<Rightarrow> (Return (Some (CreateRuntimeGroupResponse_json d), None), w'))))))))"

section \<open>Package provider\<close>

text \<open>\<open>types.String.ValueString()\<close>: the value when known, the empty string otherwise.\<close>

definition ValueString :: "tfString \<Rightarrow> string" where
  "ValueString v = (case v of StringValue s \<Rightarrow> s | _ \<Rightarrow> [])"

text \<open>
  \<open>types.Map.Elements()\<close>: the entries of a known map, none otherwise. A Go map has
  each key once; the list gives the order in which \<open>range\<close> happens to visit it.
\<close>

definition Elements :: "tfMap \<Rightarrow> (string \<times> tfString) list" where
  "Elements m = (case m of MapValue es \<Rightarrow> es | _ \<Rightarrow> [])"

text \<open>\<open>diag.Diagnostics.HasError()\<close>\<close>

definition HasError :: "Diagnostic list \<Rightarrow> bool" where
  "HasError ds = list_ex (\<lambda>d. Severity d = SeverityError) ds"

subsection \<open>Schema\<close>

datatype AttributeKind = StringAttribute | MapAttribute

record Attribute =
  Kind :: AttributeKind
  MarkdownDescription :: string
  Required :: bool
  Optional :: bool
  Computed :: bool
  Validators :: "(tfMap \<Rightarrow> bool) list"

record ResourceSchema =
  MarkdownDescription :: string
  Attributes :: "(string \<times> Attribute) list"

text \<open>
  \<open>regexp.MustCompile\<close>: \<open>Compile\<close>, and a panic when it gives an error (the message is
  the one for a pattern that Go can print between back quotes, as the pattern below).
\<close>

definition regexp_MustCompile :: "Lib \<Rightarrow> string \<Rightarrow> (string \<Rightarrow> bool) outcome" where
  "regexp_MustCompile lib str =
     (case regexp_Compile lib str of
        Inl err \<Rightarrow> Panic (''regexp: Compile(`'' @ str @ ''`): '' @ Error err)
      | Inr re \<Rightarrow> Return re)"

text \<open>
  \<open>stringvalidator.RegexMatches(re, message)\<close> holds of the strings \<open>re\<close> matches;
  \<open>mapvalidator.KeysAre(v)\<close> holds of a map when \<open>v\<close> holds of each of its keys.
\<close>

definition RegexMatches :: "(string \<Rightarrow> bool) \<Rightarrow> string \<Rightarrow> string \<Rightarrow> bool" where
  "RegexMatches re message s = re s"

definition KeysAre :: "(string \<Rightarrow> bool) \<Rightarrow> tfMap \<Rightarrow> bool" where
  "KeysAre v m = list_all v (map fst (Elements m))"

text \<open>The pattern and the message of the validator of \<open>labels\<close>, as the source spells them.\<close>

definition labels_key_pattern :: string where
  "labels_key_pattern = ''^(?!kong|konnect|mesh|kic).{1,63}$''"

definition labels_key_message :: string where
  "labels_key_message =
     ''Keys must be of length 1-63 characters, and cannot start with '' @
     [CHR 0x27] @ ''kong'' @ [CHR 0x27] @ '', '' @ [CHR 0x27] @ ''konnect'' @ [CHR 0x27] @ '', '' @
     [CHR 0x27] @ ''mesh'' @ [CHR 0x27] @ '', '' @ [CHR 0x27] @ ''kic'' @ [CHR 0x27] @ ''.''"

definition string_attribute :: "string \<Rightarrow> bool \<Rightarrow> bool \<Rightarrow> bool \<Rightarrow> Attribute" where
  "string_attribute description required optional computed =
     \<lparr>Kind = StringAttribute, Attribute.MarkdownDescription = description,
      Required = required, Optional = optional, Computed = computed, Validators = []\<rparr>"

text \<open>
  \<open>func (r *RuntimeGroup) Schema(ctx, req, resp)\<close>: the value assigned to
  \<open>resp.Schema\<close>. The pattern is compiled while the literal is built.
\<close>

definition Schema :: "Lib \<Rightarrow> ResourceSchema outcome" where
  "Schema lib =
     (case regexp_MustCompile lib labels_key_pattern of
        Panic p \<Rightarrow> Panic p
      | Return re \<Rightarrow>
          Return \<lparr>ResourceSchema.MarkdownDescription = ''Runtime group resource'',
                  Attributes =
                    [(''name'', string_attribute ''The name of the runtime group.'' True False False),
                     (''Description'',
                      string_attribute ''The description of the runtime group in Konnect.''
                        False True False),
                     (''cluster_type'',
                      string_attribute
                        ''The ClusterType value of the cluster associated with the Runtime Group.''
                        False True False),
                     (''labels'',
                      \<lparr>Kind = MapAttribute,
                       Attribute.MarkdownDescription =
                         ''Labels to facilitate tagged search on runtime groups. '' @ labels_key_message,
                       Required = False, Optional = True, Computed = False,
                       Validators = [KeysAre (RegexMatches re labels_key_message)]\<rparr>),
                     (''control_plane_endpoint'', string_attribute [] False False True),
                     (''telemetry_endpoint'', string_attribute [] False False True),
                     (''id'',
                      string_attribute ''Service generated identifier for the Runtime Group.''
                        False False True)]\<rparr>)"

subsection \<open>Create\<close>

text \<open>
  \<open>req.Plan\<close>, as far as \<open>Create\<close> reads it: the model that \<open>req.Plan.Get(ctx, &data)\<close>
  fills in, and the diagnostics of that call.
\<close>

record CreateRequest =
  Plan :: "RuntimeGroupModel \<times> Diagnostic list"

record CreateResponse =
  Diagnostics :: "Diagnostic list"
  State :: "RuntimeGroupModel option"

text \<open>The loop \<open>for k, v := range data.Labels.Elements() { labels[k] = v.String() }\<close>.\<close>

definition Create_labels :: "Lib \<Rightarrow> (string \<times> tfString) list \<Rightarrow> (string \<rightharpoonup> string)" where
  "Create_labels lib elems =
     fold (\<lambda>(k, v) labels. labels(k \<mapsto> attr_String lib v)) elems Map.empty"

text \<open>The literal \<open>createReq := client.CreateRuntimeGroupRequest{...}\<close>.\<close>

definition Create_createReq :: "Lib \<Rightarrow> RuntimeGroupModel \<Rightarrow> CreateRuntimeGroupRequest" where
  "Create_createReq lib data =
     \<lparr>CreateRuntimeGroupRequest.Name = ValueString (RuntimeGroupModel.Name data),
      CreateRuntimeGroupRequest.Description = ValueString (RuntimeGroupModel.Description data),
      CreateRuntimeGroupRequest.ClusterType = ValueString (RuntimeGroupModel.ClusterType data),
      CreateRuntimeGroupRequest.Labels =
        Create_labels lib (Elements (RuntimeGroupModel.Labels data))\<rparr>"

text \<open>
  \<open>func (r *RuntimeGroup) Create(ctx, req, resp)\<close>. \<open>r.client\<close> is the client of the
  world. \<open>resp.State.Set\<close> stores the model unless its own diagnostics have an error.
\<close>

definition Create ::
  "Lib \<Rightarrow> CreateRequest \<Rightarrow> CreateResponse \<Rightarrow> world \<Rightarrow> CreateResponse outcome \<times> world" where
  "Create lib req resp w =
     (let data = fst (Plan req);
          resp1 = resp\<lparr>Diagnostics := Diagnostics resp @ snd (Plan req)\<rparr>
      in if HasError (Diagnostics resp1) then (Return resp1, w)
         else
           (case CreateRuntimeGroup lib (Create_createReq lib data) w of
              (Panic p, w') \<Rightarrow> (Panic p, w')
            | (Return (_, Some err), w') \<Rightarrow>
                (Return (resp1\<lparr>Diagnostics := Diagnostics resp1 @
                           [Diagnostic SeverityError ''Client Error''
                              (''Unable to create, got error: '' @ Error err)]\<rparr>), w')
            | (Return (None, None), w') \<Rightarrow> (Panic nil_dereference, w')
            | (Return (Some createResp, None), w') \<Rightarrow>
                (let data' = data
                       \<lparr>RuntimeGroupModel.ControlPlaneEndpoint :=
                          StringValue (ResponseConfig.ControlPlaneEndpoint (Config createResp)),
                        RuntimeGroupModel.TelemetryEndpoint :=
                          StringValue (ResponseConfig.TelemetryEndpoint (Config createResp)),
                        Id := RuntimeGroupModel.Name data\<rparr>;
                     ds = State_Set lib data'
                 in (Return (resp1\<lparr>Diagnostics := Diagnostics resp1 @ ds,
                                   State := (if HasError ds then State resp1 else Some data')\<rparr>),
                     w'))))"

section \<open>Test doubles\<close>

text \<open>
  A deterministic stand-in for the libraries, to run the code on concrete inputs:
  \<^item> a URL parses unless it has an ASCII control character; joining appends the element;
  \<^item> the tokens \<open>a.b.c\<close> and \<open>x.y.z\<close> decode, any other token does not; as
    \<open>ParseUnverified\<close> checks no signature, it leaves \<open>Valid\<close> unset on every token;
  \<^item> the remote end answers 404 under \<open>/missing\<close> and 201 elsewhere, with a body that
    decodes except under \<open>/garbled\<close>;
  \<^item> the pattern compiler rejects a group that opens with \<open>(?!\<close>, as the syntax of Go's
    \<open>regexp\<close> has no look-ahead, and \<open>String()\<close> puts a known string between double
    quotes.
\<close>

definition is_control :: "char \<Rightarrow> bool" where
  "is_control c = (of_char c < (32::nat) \<or> of_char c = (127::nat))"

fun has_lookahead :: "string \<Rightarrow> bool" where
  "has_lookahead (a # b # c # s) =
     ((a = CHR ''('' \<and> b = CHR ''?'' \<and> c = CHR ''!'') \<or> has_lookahead (b # c # s))"
| "has_lookahead _ = False"

definition stub_decoded :: Decoded where
  "stub_decoded =
     \<lparr>string_at = (\<lambda>p.
        if p = [''id''] then ''0fd7b9bc''
        else if p = [''name''] then ''prod''
        else if p = [''description''] then ''production gateways''
        else if p = [''config'', ''control_plane_endpoint''] then ''https://cp.example.com''
        else if p = [''config'', ''telemetry_endpoint''] then ''https://tp.example.com''
        else if p = [''created_at''] then ''2023-05-01T10:00:00Z''
        else if p = [''updated_at''] then ''2023-05-02T10:00:00Z''
        else []),
      string_map_at = (\<lambda>p. if p = [''labels''] then [''env'' \<mapsto> ''prod''] else Map.empty)\<rparr>"

definition stub_lib :: Lib where
  "stub_lib =
     \<lparr>url_Parse = (\<lambda>s.
        if list_ex is_control s
        then Some (GoError ''net/url: invalid control character in URL'' None) else None),
      jwt_ParseUnverified = (\<lambda>s.
        if s = ''a.b.c'' then Inr \<lparr>Valid = False\<rparr>
        else if s = ''x.y.z'' then Inr \<lparr>Valid = False\<rparr>
        else Inl (GoError ''token contains an invalid number of segments'' None)),
      json_Marshal = (\<lambda>v. Inr ''<request>''),
      url_JoinPath = (\<lambda>base elem.
        if list_ex is_control base
        then Inl (GoError ''net/url: invalid control character in URL'' None)
        else Inr (base @ elem)),
      http_NewRequest = (\<lambda>method url body. None),
      http_Do = (\<lambda>sent req.
        if URL req = ''https://api.example.com/missing/create-runtime-group''
        then Inr \<lparr>StatusCode = 404, Body = ''<not found>''\<rparr>
        else if URL req = ''https://api.example.com/garbled/create-runtime-group''
        then Inr \<lparr>StatusCode = 201, Body = ''<garbled>''\<rparr>
        else Inr \<lparr>StatusCode = 201, Body = ''<response>''\<rparr>),
      json_Decode = (\<lambda>body.
        if body = ''<response>'' then Inr stub_decoded
        else Inl (GoError ''invalid character'' None)),
      regexp_Compile = (\<lambda>p.
        if has_lookahead p
        then Inl (GoError ''error parsing regexp: invalid or unsupported Perl syntax: `(?!`'' None)
        else Inr (\<lambda>s. True)),
      attr_String = (\<lambda>v. case v of
          StringNull \<Rightarrow> ''<null>''
        | StringUnknown \<Rightarrow> ''<unknown>''
        | StringValue s \<Rightarrow> [CHR 0x22] @ s @ [CHR 0x22]),
      State_Set = (\<lambda>data. [])\<rparr>"

definition stub_world :: "string \<Rightarrow> world" where
  "stub_world base = \<lparr>client = Some \<lparr>BaseUrl = base, token = ''a.b.c''\<rparr>, outbound = []\<rparr>"

definition stub_request :: CreateRuntimeGroupRequest where
  "stub_request =
     \<lparr>CreateRuntimeGroupRequest.Name = ''prod'',
      CreateRuntimeGroupRequest.Description = ''production gateways'',
      CreateRuntimeGroupRequest.ClusterType = ''CLUSTER_TYPE_HYBRID'',
      CreateRuntimeGroupRequest.Labels = [''env'' \<mapsto> ''prod'']\<rparr>"

definition stub_plan :: RuntimeGroupModel where
  "stub_plan =
     \<lparr>Id = StringUnknown,
      RuntimeGroupModel.Name = StringValue ''prod'',
      RuntimeGroupModel.Description = StringValue ''production gateways'',
      RuntimeGroupModel.ClusterType = StringNull,
      RuntimeGroupModel.Labels = MapValue [(''env'', StringValue ''prod''), (''team'', StringNull)],
      RuntimeGroupModel.ControlPlaneEndpoint = StringUnknown,
      RuntimeGroupModel.TelemetryEndpoint = StringUnknown\<rparr>"

section \<open>Construction of the client\<close>

lemma CreateRuntimeGroup_client:
  "client (snd (CreateRuntimeGroup lib requestBody w)) = client w"
  by (auto simp: CreateRuntimeGroup_def do_def Let_def
           split: sum.splits option.splits outcome.splits prod.splits)

text \<open>
  Claim C1. \<open>validateBearerToken\<close> decodes the token with \<open>ParseUnverified\<close> and then
  requires \<open>token.Valid\<close>. \<open>ParseUnverified\<close> verifies nothing and so sets \<open>Valid\<close> on
  no token. With a decoder that marks no token valid, \<open>New\<close> returns a nil client and an
  error for every base address and every token; when the address parses and the token
  decodes, the error is \<open>invalid token\<close> wrapped with \<open>error validating bearer token\<close>.
\<close>

theorem New_rejects_every_token:
  assumes "\<forall>s tok. jwt_ParseUnverified lib s = Inr tok \<longrightarrow> \<not> Valid tok"
  shows "fst (New lib baseULR tokenString) = None
       \<and> snd (New lib baseULR tokenString) \<noteq> None
       \<and> (url_Parse lib baseULR = None \<and> jwt_ParseUnverified lib tokenString = Inr decoded \<longrightarrow>
            New lib baseULR tokenString
              = (None, Some (wrap ''error validating bearer token''
                               (GoError ''invalid token'' None))))"
  using assms
  by (auto simp: New_def validateBearerToken_def split: option.splits sum.splits)

theorem New_rejects_every_token_witness:
  "url_Parse stub_lib ''https://api.example.com'' = None
   \<and> jwt_ParseUnverified stub_lib ''a.b.c'' = Inr \<lparr>Valid = False\<rparr>
   \<and> New stub_lib ''https://api.example.com'' ''a.b.c''
       = (None, Some (GoError
            ''|client error: error validating bearer token -> invalid token''
            (Some (GoError ''invalid token'' None))))"
proof -
  have never: "\<forall>s tok. jwt_ParseUnverified stub_lib s = Inr tok \<longrightarrow> \<not> Valid tok"
    by (auto simp: stub_lib_def split: if_splits)
  have u: "url_Parse stub_lib ''https://api.example.com'' = None"
    by (simp add: stub_lib_def is_control_def)
  have j: "jwt_ParseUnverified stub_lib ''a.b.c'' = Inr \<lparr>Valid = False\<rparr>"
    by (simp add: stub_lib_def)
  from New_rejects_every_token
         [OF never, of "''https://api.example.com''" "''a.b.c''" "\<lparr>Valid = False\<rparr>"] u j
  have "New stub_lib ''https://api.example.com'' ''a.b.c''
          = (None, Some (wrap ''error validating bearer token'' (GoError ''invalid token'' None)))"
    by blast
  with u j show ?thesis by (simp add: wrap_def)
qed

text \<open>
  Claim C3. When the base address does not parse, or it parses and the token does not
  decode or decodes to a token that is not marked valid, \<open>New\<close> returns an error and a
  nil client. The error is the library's error (or \<open>invalid token\<close>) wrapped by the
  client with the step that failed; these are the errors the specification calls
  \<open>ConfigError\<close>.
\<close>

theorem New_fails:
  assumes "url_Parse lib baseULR \<noteq> None
         \<or> (case jwt_ParseUnverified lib tokenString of
               Inl err \<Rightarrow> True | Inr tok \<Rightarrow> \<not> Valid tok)"
  shows "New lib baseULR tokenString =
           (None,
            Some (case url_Parse lib baseULR of
                    Some err \<Rightarrow> wrap ''error parsing base URL'' err
                  | None \<Rightarrow>
                      wrap ''error validating bearer token''
                        (case jwt_ParseUnverified lib tokenString of
                           Inl err \<Rightarrow> err
                         | Inr tok \<Rightarrow> GoError ''invalid token'' None)))"
  using assms
  by (auto simp: New_def validateBearerToken_def split: option.splits sum.splits)

theorem New_fails_witness:
  "New stub_lib [CHR ''h'', CHR 0x7F] ''a.b.c''
     = (None, Some (GoError
          ''|client error: error parsing base URL -> net/url: invalid control character in URL''
          (Some (GoError ''net/url: invalid control character in URL'' None))))
   \<and> New stub_lib ''https://api.example.com'' ''not-a-token''
     = (None, Some (GoError
          ''|client error: error validating bearer token -> token contains an invalid number of segments''
          (Some (GoError ''token contains an invalid number of segments'' None))))
   \<and> New stub_lib ''https://api.example.com'' ''x.y.z''
     = (None, Some (GoError
          ''|client error: error validating bearer token -> invalid token''
          (Some (GoError ''invalid token'' None))))"
proof -
  have a: "url_Parse stub_lib [CHR ''h'', CHR 0x7F] \<noteq> None
         \<or> (case jwt_ParseUnverified stub_lib ''a.b.c'' of
               Inl err \<Rightarrow> True | Inr tok \<Rightarrow> \<not> Valid tok)"
    by (simp add: stub_lib_def is_control_def)
  have b: "url_Parse stub_lib ''https://api.example.com'' \<noteq> None
         \<or> (case jwt_ParseUnverified stub_lib ''not-a-token'' of
               Inl err \<Rightarrow> True | Inr tok \<Rightarrow> \<not> Valid tok)"
    by (simp add: stub_lib_def is_control_def)
  have c: "url_Parse stub_lib ''https://api.example.com'' \<noteq> None
         \<or> (case jwt_ParseUnverified stub_lib ''x.y.z'' of
               Inl err \<Rightarrow> True | Inr tok \<Rightarrow> \<not> Valid tok)"
    by (simp add: stub_lib_def is_control_def)
  show ?thesis
    using New_fails [OF a] New_fails [OF b] New_fails [OF c]
    by (simp add: stub_lib_def is_control_def wrap_def)
qed

section \<open>Creating a runtime group\<close>

text \<open>The request \<open>CreateRuntimeGroup\<close> builds and \<open>do\<close> completes with its two headers.\<close>

lemma CreateRuntimeGroup_run:
  assumes "json_Marshal lib (CreateRuntimeGroupRequest_json rq) = Inr bytes"
    and "client w = Some c"
    and "url_JoinPath lib (BaseUrl c) ''/create-runtime-group'' = Inr endpoint"
    and "http_NewRequest lib ''POST'' endpoint bytes = None"
    and "hreq = \<lparr>Method = ''POST'', URL = endpoint,
                  Header = [''Content-Type'' \<mapsto> ''application/json'',
                            ''Authorization'' \<mapsto> ''Bearer '' @ token c],
                  Body = bytes\<rparr>"
  shows "CreateRuntimeGroup lib rq w =
           (case http_Do lib (outbound w) hreq of
              Inl err \<Rightarrow>
                Return (None, Some (wrap ''making HTTP request'' (wrap ''making HTTP request'' err)))
            | Inr resp \<Rightarrow>
                (case codeToErr (StatusCode resp) of
                   Some err \<Rightarrow> Return (None, Some (wrap ''checking status code'' err))
                 | None \<Rightarrow>
                     (case json_Decode lib (Response.Body resp) of
                        Inl err \<Rightarrow> Return (None, Some (wrap ''decoding response JSON'' err))
                      | Inr d \<Rightarrow> Return (Some (CreateRuntimeGroupResponse_json d), None))),
            w\<lparr>outbound := outbound w @ [hreq]\<rparr>)"
  using assms
  by (simp add: CreateRuntimeGroup_def do_def Let_def runtimeGroupEndpoint_def
        createRuntimeGroupMethod_def split: sum.splits option.splits)

lemma CreateRuntimeGroup_sent:
  assumes "outbound (snd (CreateRuntimeGroup lib rq w)) = outbound w @ [hreq]"
  shows "\<exists>bytes c endpoint.
           json_Marshal lib (CreateRuntimeGroupRequest_json rq) = Inr bytes
         \<and> client w = Some c
         \<and> url_JoinPath lib (BaseUrl c) ''/create-runtime-group'' = Inr endpoint
         \<and> http_NewRequest lib ''POST'' endpoint bytes = None
         \<and> hreq = \<lparr>Method = ''POST'', URL = endpoint,
                    Header = [''Content-Type'' \<mapsto> ''application/json'',
                              ''Authorization'' \<mapsto> ''Bearer '' @ token c],
                    Body = bytes\<rparr>"
  using assms
  by (auto simp: CreateRuntimeGroup_def do_def Let_def runtimeGroupEndpoint_def
        createRuntimeGroupMethod_def split: sum.splits option.splits)

lemma CreateRuntimeGroup_answered:
  assumes "outbound (snd (CreateRuntimeGroup lib rq w)) = outbound w @ [hreq]"
    and "http_Do lib (outbound w) hreq = Inr resp"
  shows "fst (CreateRuntimeGroup lib rq w) =
           (case codeToErr (StatusCode resp) of
              Some err \<Rightarrow> Return (None, Some (wrap ''checking status code'' err))
            | None \<Rightarrow>
                (case json_Decode lib (Response.Body resp) of
                   Inl err \<Rightarrow> Return (None, Some (wrap ''decoding response JSON'' err))
                 | Inr d \<Rightarrow> Return (Some (CreateRuntimeGroupResponse_json d), None)))"
proof -
  from CreateRuntimeGroup_sent [OF assms(1)] obtain bytes c endpoint where
    h: "json_Marshal lib (CreateRuntimeGroupRequest_json rq) = Inr bytes"
       "client w = Some c"
       "url_JoinPath lib (BaseUrl c) ''/create-runtime-group'' = Inr endpoint"
       "http_NewRequest lib ''POST'' endpoint bytes = None"
       "hreq = \<lparr>Method = ''POST'', URL = endpoint,
                 Header = [''Content-Type'' \<mapsto> ''application/json'',
                           ''Authorization'' \<mapsto> ''Bearer '' @ token c],
                 Body = bytes\<rparr>"
    by blast
  show ?thesis
    by (simp add: CreateRuntimeGroup_run [OF h] assms(2))
qed

text \<open>What the stand-in libraries make of a call, for a base address they accept.\<close>

lemma stub_run_sent:
  "\<not> list_ex is_control base \<Longrightarrow>
   outbound (snd (CreateRuntimeGroup stub_lib stub_request (stub_world base))) =
     outbound (stub_world base) @
     [\<lparr>Method = ''POST'', URL = base @ ''/create-runtime-group'',
       Header = [''Content-Type'' \<mapsto> ''application/json'',
                 ''Authorization'' \<mapsto> ''Bearer a.b.c''],
       Body = ''<request>''\<rparr>]"
  by (simp add: CreateRuntimeGroup_def do_def Let_def stub_lib_def stub_world_def
        runtimeGroupEndpoint_def createRuntimeGroupMethod_def split: sum.splits option.splits)

lemma stub_base_ok:
  "\<not> list_ex is_control ''https://api.example.com''"
  "\<not> list_ex is_control ''https://api.example.com/missing''"
  "\<not> list_ex is_control ''https://api.example.com/garbled''"
  by (simp_all add: is_control_def)

text \<open>
  Claim C4. Suppose a call handed a request to the transport and the transport answered
  with a response. If the body of the response decodes, the call returns the decoded
  response and no error exactly when the status code is 200 or 201. For any other status
  code, and whatever the body is, the call returns a nil response and the error
  \<open>HTTP request failed with status code <code>\<close>, wrapped with
  \<open>checking status code\<close>: the error is made from the status code alone.
\<close>

theorem CreateRuntimeGroup_status:
  assumes "outbound (snd (CreateRuntimeGroup lib rq w)) = outbound w @ [hreq]"
    and "http_Do lib (outbound w) hreq = Inr resp"
  shows "(json_Decode lib (Response.Body resp) = Inr d \<longrightarrow>
            (fst (CreateRuntimeGroup lib rq w)
               = Return (Some (CreateRuntimeGroupResponse_json d), None))
            = (StatusCode resp = 200 \<or> StatusCode resp = 201))
       \<and> (StatusCode resp \<noteq> 200 \<and> StatusCode resp \<noteq> 201 \<longrightarrow>
            fst (CreateRuntimeGroup lib rq w)
              = Return (None,
                  Some (wrap ''checking status code''
                    (GoError (''HTTP request failed with status code '' @ fmt_d (StatusCode resp))
                       None))))"
  by (auto simp: CreateRuntimeGroup_answered [OF assms] codeToErr_def)

theorem CreateRuntimeGroup_status_witness:
  "fst (CreateRuntimeGroup stub_lib stub_request (stub_world ''https://api.example.com/missing''))
     = Return (None,
         Some (GoError
           ''|client error: checking status code -> HTTP request failed with status code 404''
           (Some (GoError ''HTTP request failed with status code 404'' None))))
   \<and> fst (CreateRuntimeGroup stub_lib stub_request (stub_world ''https://api.example.com''))
     = Return (Some (CreateRuntimeGroupResponse_json stub_decoded), None)"
proof -
  let ?h = "\<lambda>base. \<lparr>Method = ''POST'', URL = base @ ''/create-runtime-group'',
                      Header = [''Content-Type'' \<mapsto> ''application/json'',
                                ''Authorization'' \<mapsto> ''Bearer a.b.c''],
                      Body = ''<request>''\<rparr>"
  have a1: "http_Do stub_lib (outbound (stub_world ''https://api.example.com/missing''))
              (?h ''https://api.example.com/missing'')
            = Inr \<lparr>StatusCode = 404, Body = ''<not found>''\<rparr>"
    by (simp add: stub_lib_def)
  have a2: "http_Do stub_lib (outbound (stub_world ''https://api.example.com''))
              (?h ''https://api.example.com'')
            = Inr \<lparr>StatusCode = 201, Body = ''<response>''\<rparr>"
    by (simp add: stub_lib_def)
  have d2: "json_Decode stub_lib ''<response>'' = Inr stub_decoded"
    by (simp add: stub_lib_def)
  have n: "fmt_d 404 = ''404''"
    by (simp add: fmt_d_def nat_digits.simps)
  from CreateRuntimeGroup_status [OF stub_run_sent [OF stub_base_ok(2)] a1]
  have "fst (CreateRuntimeGroup stub_lib stub_request
               (stub_world ''https://api.example.com/missing''))
          = Return (None,
              Some (wrap ''checking status code''
                (GoError (''HTTP request failed with status code '' @ fmt_d 404) None)))"
    by simp
  moreover
  from CreateRuntimeGroup_status [OF stub_run_sent [OF stub_base_ok(1)] a2, of stub_decoded] d2
  have "fst (CreateRuntimeGroup stub_lib stub_request (stub_world ''https://api.example.com''))
          = Return (Some (CreateRuntimeGroupResponse_json stub_decoded), None)"
    by simp
  ultimately show ?thesis
    by (simp add: wrap_def n)
qed

text \<open>
  Claim C5, as amended. A call whose body serialises, whose client is not nil, whose
  endpoint URL joins and whose request is constructed hands exactly one request to the
  transport: a POST to the URL that joining the base address and
  \<open>/create-runtime-group\<close> gives, with the headers \<open>Content-Type: application/json\<close>
  and \<open>Authorization: Bearer <token>\<close> and no other, and with the serialised object as
  its body; the members of that object are \<open>name\<close>, \<open>description\<close>, \<open>cluster_type\<close>
  and \<open>labels\<close>. Any other call hands nothing to the transport and leaves the world as
  it was: it returns a nil response and the wrapped error of the step that failed
  (serialising the body, joining the URL, constructing the request), or panics when the
  body serialised and the client is nil.
\<close>

theorem CreateRuntimeGroup_one_POST:
  "(json_Marshal lib (CreateRuntimeGroupRequest_json rq) = Inl err \<longrightarrow>
      CreateRuntimeGroup lib rq w
        = (Return (None, Some (wrap '' serializing request body'' err)), w))
   \<and> (json_Marshal lib (CreateRuntimeGroupRequest_json rq) = Inr bytes \<and> client w = None \<longrightarrow>
      CreateRuntimeGroup lib rq w = (Panic nil_dereference, w))
   \<and> (json_Marshal lib (CreateRuntimeGroupRequest_json rq) = Inr bytes \<and> client w = Some c
      \<and> url_JoinPath lib (BaseUrl c) ''/create-runtime-group'' = Inl err \<longrightarrow>
      CreateRuntimeGroup lib rq w
        = (Return (None, Some (wrap '' joining base URL and endpoint'' err)), w))
   \<and> (json_Marshal lib (CreateRuntimeGroupRequest_json rq) = Inr bytes \<and> client w = Some c
      \<and> url_JoinPath lib (BaseUrl c) ''/create-runtime-group'' = Inr endpoint
      \<and> http_NewRequest lib ''POST'' endpoint bytes = Some err \<longrightarrow>
      CreateRuntimeGroup lib rq w
        = (Return (None, Some (wrap ''creating HTTP request'' err)), w))
   \<and> (json_Marshal lib (CreateRuntimeGroupRequest_json rq) = Inr bytes \<and> client w = Some c
      \<and> url_JoinPath lib (BaseUrl c) ''/create-runtime-group'' = Inr endpoint
      \<and> http_NewRequest lib ''POST'' endpoint bytes = None \<longrightarrow>
      outbound (snd (CreateRuntimeGroup lib rq w)) =
        outbound w @
        [\<lparr>Method = ''POST'', URL = endpoint,
          Header = [''Content-Type'' \<mapsto> ''application/json'',
                    ''Authorization'' \<mapsto> ''Bearer '' @ token c],
          Body = bytes\<rparr>])
   \<and> member_names (CreateRuntimeGroupRequest_json rq)
       = [''name'', ''description'', ''cluster_type'', ''labels'']"
proof (intro conjI impI)
  show "member_names (CreateRuntimeGroupRequest_json rq)
          = [''name'', ''description'', ''cluster_type'', ''labels'']"
    by (simp add: CreateRuntimeGroupRequest_json_def)
next
  assume "json_Marshal lib (CreateRuntimeGroupRequest_json rq) = Inr bytes \<and> client w = Some c
        \<and> url_JoinPath lib (BaseUrl c) ''/create-runtime-group'' = Inr endpoint
        \<and> http_NewRequest lib ''POST'' endpoint bytes = None"
  then have h: "json_Marshal lib (CreateRuntimeGroupRequest_json rq) = Inr bytes"
      "client w = Some c"
      "url_JoinPath lib (BaseUrl c) ''/create-runtime-group'' = Inr endpoint"
      "http_NewRequest lib ''POST'' endpoint bytes = None"
    by simp_all
  show "outbound (snd (CreateRuntimeGroup lib rq w)) =
          outbound w @
          [\<lparr>Method = ''POST'', URL = endpoint,
            Header = [''Content-Type'' \<mapsto> ''application/json'',
                      ''Authorization'' \<mapsto> ''Bearer '' @ token c],
            Body = bytes\<rparr>]"
    by (simp add: CreateRuntimeGroup_run [OF h refl])
qed (simp_all add: CreateRuntimeGroup_def runtimeGroupEndpoint_def createRuntimeGroupMethod_def)

theorem CreateRuntimeGroup_one_POST_witness:
  "outbound (snd (CreateRuntimeGroup stub_lib stub_request (stub_world ''https://api.example.com'')))
     = [\<lparr>Method = ''POST'', URL = ''https://api.example.com/create-runtime-group'',
         Header = [''Content-Type'' \<mapsto> ''application/json'',
                   ''Authorization'' \<mapsto> ''Bearer a.b.c''],
         Body = ''<request>''\<rparr>]
   \<and> member_names (CreateRuntimeGroupRequest_json stub_request)
     = [''name'', ''description'', ''cluster_type'', ''labels'']
   \<and> CreateRuntimeGroup
       (stub_lib\<lparr>json_Marshal := \<lambda>v. Inl (GoError ''json: unsupported value'' None)\<rparr>)
       stub_request (stub_world ''https://api.example.com'')
     = (Return (None,
          Some (wrap '' serializing request body'' (GoError ''json: unsupported value'' None))),
        stub_world ''https://api.example.com'')
   \<and> CreateRuntimeGroup stub_lib stub_request \<lparr>client = None, outbound = []\<rparr>
     = (Panic nil_dereference, \<lparr>client = None, outbound = []\<rparr>)
   \<and> CreateRuntimeGroup stub_lib stub_request (stub_world [CHR 0x01])
     = (Return (None,
          Some (wrap '' joining base URL and endpoint''
                  (GoError ''net/url: invalid control character in URL'' None))),
        stub_world [CHR 0x01])
   \<and> CreateRuntimeGroup
       (stub_lib\<lparr>http_NewRequest := \<lambda>m u b. Some (GoError ''net/http: invalid request'' None)\<rparr>)
       stub_request (stub_world ''https://api.example.com'')
     = (Return (None,
          Some (wrap ''creating HTTP request'' (GoError ''net/http: invalid request'' None))),
        stub_world ''https://api.example.com'')"
proof -
  let ?nomarshal = "stub_lib\<lparr>json_Marshal := \<lambda>v. Inl (GoError ''json: unsupported value'' None)\<rparr>"
  let ?norequest =
    "stub_lib\<lparr>http_NewRequest := \<lambda>m u b. Some (GoError ''net/http: invalid request'' None)\<rparr>"
  let ?c = "\<lambda>base. \<lparr>BaseUrl = base, token = ''a.b.c''\<rparr>"
  have m: "json_Marshal stub_lib (CreateRuntimeGroupRequest_json stub_request) = Inr ''<request>''"
    by (simp add: stub_lib_def)
  have m': "json_Marshal ?norequest (CreateRuntimeGroupRequest_json stub_request) = Inr ''<request>''"
    by (simp add: stub_lib_def)
  have c: "client (stub_world base) = Some (?c base)" for base
    by (simp add: stub_world_def)
  have j: "url_JoinPath stub_lib (BaseUrl (?c ''https://api.example.com'')) ''/create-runtime-group''
           = Inr ''https://api.example.com/create-runtime-group''"
    by (simp add: stub_lib_def is_control_def)
  have j': "url_JoinPath ?norequest (BaseUrl (?c ''https://api.example.com''))
              ''/create-runtime-group''
            = Inr ''https://api.example.com/create-runtime-group''"
    by (simp add: stub_lib_def is_control_def)
  have r: "http_NewRequest stub_lib ''POST'' ''https://api.example.com/create-runtime-group''
             ''<request>'' = None"
    by (simp add: stub_lib_def)
  have sent: "outbound (snd (CreateRuntimeGroup stub_lib stub_request
                 (stub_world ''https://api.example.com'')))
              = [\<lparr>Method = ''POST'', URL = ''https://api.example.com/create-runtime-group'',
                  Header = [''Content-Type'' \<mapsto> ''application/json'',
                            ''Authorization'' \<mapsto> ''Bearer a.b.c''],
                  Body = ''<request>''\<rparr>]"
    using CreateRuntimeGroup_one_POST
            [of stub_lib stub_request _ "stub_world ''https://api.example.com''" "''<request>''"
                "?c ''https://api.example.com''" "''https://api.example.com/create-runtime-group''"]
          m c j r
    by (simp add: stub_world_def)
  have names: "member_names (CreateRuntimeGroupRequest_json stub_request)
                 = [''name'', ''description'', ''cluster_type'', ''labels'']"
    using CreateRuntimeGroup_one_POST [of stub_lib stub_request] by blast
  have nomarshal: "CreateRuntimeGroup ?nomarshal stub_request (stub_world ''https://api.example.com'')
       = (Return (None,
            Some (wrap '' serializing request body'' (GoError ''json: unsupported value'' None))),
          stub_world ''https://api.example.com'')"
    using CreateRuntimeGroup_one_POST
            [of ?nomarshal stub_request "GoError ''json: unsupported value'' None"
                "stub_world ''https://api.example.com''"]
    by simp
  have nil: "CreateRuntimeGroup stub_lib stub_request \<lparr>client = None, outbound = []\<rparr>
       = (Panic nil_dereference, \<lparr>client = None, outbound = []\<rparr>)"
    using CreateRuntimeGroup_one_POST
            [of stub_lib stub_request _ "\<lparr>client = None, outbound = []\<rparr>" "''<request>''"] m
    by simp
  have nojoin: "CreateRuntimeGroup stub_lib stub_request (stub_world [CHR 0x01])
       = (Return (None,
            Some (wrap '' joining base URL and endpoint''
                    (GoError ''net/url: invalid control character in URL'' None))),
          stub_world [CHR 0x01])"
  proof -
    have "url_JoinPath stub_lib (BaseUrl (?c [CHR 0x01])) ''/create-runtime-group''
            = Inl (GoError ''net/url: invalid control character in URL'' None)"
      by (simp add: stub_lib_def is_control_def)
    with CreateRuntimeGroup_one_POST
           [of stub_lib stub_request "GoError ''net/url: invalid control character in URL'' None"
               "stub_world [CHR 0x01]" "''<request>''" "?c [CHR 0x01]"] m c [of "[CHR 0x01]"]
    show ?thesis by blast
  qed
  have norequest: "CreateRuntimeGroup ?norequest stub_request (stub_world ''https://api.example.com'')
       = (Return (None,
            Some (wrap ''creating HTTP request'' (GoError ''net/http: invalid request'' None))),
          stub_world ''https://api.example.com'')"
  proof -
    have "http_NewRequest ?norequest ''POST'' ''https://api.example.com/create-runtime-group''
            ''<request>'' = Some (GoError ''net/http: invalid request'' None)"
      by simp
    with CreateRuntimeGroup_one_POST
           [of ?norequest stub_request "GoError ''net/http: invalid request'' None"
               "stub_world ''https://api.example.com''" "''<request>''"
               "?c ''https://api.example.com''" "''https://api.example.com/create-runtime-group''"]
         m' c [of "''https://api.example.com''"] j'
    show ?thesis by blast
  qed
  from sent names nomarshal nil nojoin norequest show ?thesis
    by (intro conjI)
qed

text \<open>
  Claim C5, as stated, fails: a call whose endpoint URL cannot be joined returns before
  any request is made. Here the base address of the client has the control character DEL.
\<close>

theorem CreateRuntimeGroup_one_POST_counterexample:
  "CreateRuntimeGroup stub_lib stub_request
     \<lparr>client = Some \<lparr>BaseUrl = [CHR ''h'', CHR 0x7F], token = ''a.b.c''\<rparr>, outbound = []\<rparr>
   = (Return (None,
        Some (GoError
          ''|client error:  joining base URL and endpoint -> net/url: invalid control character in URL''
          (Some (GoError ''net/url: invalid control character in URL'' None)))),
      \<lparr>client = Some \<lparr>BaseUrl = [CHR ''h'', CHR 0x7F], token = ''a.b.c''\<rparr>, outbound = []\<rparr>)"
  by (simp add: CreateRuntimeGroup_def stub_lib_def is_control_def wrap_def
        runtimeGroupEndpoint_def)

text \<open>
  Claim C6. Suppose a call handed a request to the transport, the transport answered with
  status 201 or 200, and the body of the response decodes. Then the call returns no error
  and a response whose fields are the values decoded under the keys \<open>id\<close>, \<open>name\<close>,
  \<open>description\<close>, \<open>labels\<close>, \<open>config.control_plane_endpoint\<close>,
  \<open>config.telemetry_endpoint\<close>, \<open>created_at\<close> and \<open>updated_at\<close>.
\<close>

theorem CreateRuntimeGroup_decoded:
  assumes "outbound (snd (CreateRuntimeGroup lib rq w)) = outbound w @ [hreq]"
    and "http_Do lib (outbound w) hreq = Inr resp"
    and "StatusCode resp = 201 \<or> StatusCode resp = 200"
    and "json_Decode lib (Response.Body resp) = Inr d"
  shows "fst (CreateRuntimeGroup lib rq w) =
           Return (Some
             \<lparr>ID = string_at d [''id''],
              CreateRuntimeGroupResponse.Name = string_at d [''name''],
              CreateRuntimeGroupResponse.Description = string_at d [''description''],
              CreateRuntimeGroupResponse.Labels = string_map_at d [''labels''],
              Config =
                \<lparr>ResponseConfig.ControlPlaneEndpoint = string_at d [''config'', ''control_plane_endpoint''],
                 ResponseConfig.TelemetryEndpoint = string_at d [''config'', ''telemetry_endpoint'']\<rparr>,
              CreatedAt = string_at d [''created_at''],
              UpdatedAt = string_at d [''updated_at'']\<rparr>, None)"
  using assms(3,4)
  by (auto simp: CreateRuntimeGroup_answered [OF assms(1,2)] codeToErr_def
        CreateRuntimeGroupResponse_json_def)

theorem CreateRuntimeGroup_decoded_witness:
  "fst (CreateRuntimeGroup stub_lib stub_request (stub_world ''https://api.example.com''))
     = Return (Some
         \<lparr>ID = ''0fd7b9bc'',
          CreateRuntimeGroupResponse.Name = ''prod'',
          CreateRuntimeGroupResponse.Description = ''production gateways'',
          CreateRuntimeGroupResponse.Labels = [''env'' \<mapsto> ''prod''],
          Config = \<lparr>ResponseConfig.ControlPlaneEndpoint = ''https://cp.example.com'',
                    ResponseConfig.TelemetryEndpoint = ''https://tp.example.com''\<rparr>,
          CreatedAt = ''2023-05-01T10:00:00Z'',
          UpdatedAt = ''2023-05-02T10:00:00Z''\<rparr>, None)"
proof -
  have a: "http_Do stub_lib (outbound (stub_world ''https://api.example.com''))
             \<lparr>Method = ''POST'', URL = ''https://api.example.com'' @ ''/create-runtime-group'',
              Header = [''Content-Type'' \<mapsto> ''application/json'',
                        ''Authorization'' \<mapsto> ''Bearer a.b.c''],
              Body = ''<request>''\<rparr>
           = Inr \<lparr>StatusCode = 201, Body = ''<response>''\<rparr>"
    by (simp add: stub_lib_def)
  have s: "StatusCode \<lparr>StatusCode = 201, Body = ''<response>''\<rparr> = 201
         \<or> StatusCode \<lparr>StatusCode = 201, Body = ''<response>''\<rparr> = 200"
    by simp
  have d: "json_Decode stub_lib (Response.Body \<lparr>StatusCode = 201, Body = ''<response>''\<rparr>)
           = Inr stub_decoded"
    by (simp add: stub_lib_def)
  show ?thesis
    using CreateRuntimeGroup_decoded [OF stub_run_sent [OF stub_base_ok(1)] a s d]
    by (simp add: stub_decoded_def)
qed

text \<open>
  Claim C7. Suppose a call handed a request to the transport, the transport answered with
  status 201 or 200, and the body of the response does not decode. Then the call returns
  a nil response and the decoder's error wrapped with \<open>decoding response JSON\<close>.
\<close>

theorem CreateRuntimeGroup_undecodable:
  assumes "outbound (snd (CreateRuntimeGroup lib rq w)) = outbound w @ [hreq]"
    and "http_Do lib (outbound w) hreq = Inr resp"
    and "StatusCode resp = 201 \<or> StatusCode resp = 200"
    and "json_Decode lib (Response.Body resp) = Inl err"
  shows "fst (CreateRuntimeGroup lib rq w) =
           Return (None, Some (wrap ''decoding response JSON'' err))"
  using assms(3,4)
  by (auto simp: CreateRuntimeGroup_answered [OF assms(1,2)] codeToErr_def)

theorem CreateRuntimeGroup_undecodable_witness:
  "fst (CreateRuntimeGroup stub_lib stub_request (stub_world ''https://api.example.com/garbled''))
     = Return (None,
         Some (GoError ''|client error: decoding response JSON -> invalid character''
                 (Some (GoError ''invalid character'' None))))"
proof -
  have a: "http_Do stub_lib (outbound (stub_world ''https://api.example.com/garbled''))
             \<lparr>Method = ''POST'',
              URL = ''https://api.example.com/garbled'' @ ''/create-runtime-group'',
              Header = [''Content-Type'' \<mapsto> ''application/json'',
                        ''Authorization'' \<mapsto> ''Bearer a.b.c''],
              Body = ''<request>''\<rparr>
           = Inr \<lparr>StatusCode = 201, Body = ''<garbled>''\<rparr>"
    by (simp add: stub_lib_def)
  have s: "StatusCode \<lparr>StatusCode = 201, Body = ''<garbled>''\<rparr> = 201
         \<or> StatusCode \<lparr>StatusCode = 201, Body = ''<garbled>''\<rparr> = 200"
    by simp
  have d: "json_Decode stub_lib (Response.Body \<lparr>StatusCode = 201, Body = ''<garbled>''\<rparr>)
           = Inl (GoError ''invalid character'' None)"
    by (simp add: stub_lib_def)
  show ?thesis
    using CreateRuntimeGroup_undecodable [OF stub_run_sent [OF stub_base_ok(3)] a s d]
    by (simp add: wrap_def)
qed

text \<open>
  Claim C8. When the request body does not serialise, the call returns a nil response
  and the encoder's error wrapped with \<open>serializing request body\<close>, and the world is as
  before: nothing was handed to the transport. The outcome is the same whatever
  \<open>http.NewRequest\<close> and the transport would do.
\<close>

theorem CreateRuntimeGroup_unserializable:
  assumes "json_Marshal lib (CreateRuntimeGroupRequest_json rq) = Inl err"
  shows "CreateRuntimeGroup lib rq w
           = (Return (None, Some (wrap '' serializing request body'' err)), w)
       \<and> CreateRuntimeGroup (lib\<lparr>http_NewRequest := nr, http_Do := tr\<rparr>) rq w
           = CreateRuntimeGroup lib rq w"
  using assms by (simp add: CreateRuntimeGroup_def)

theorem CreateRuntimeGroup_unserializable_witness:
  "CreateRuntimeGroup
     (stub_lib\<lparr>json_Marshal := \<lambda>v. Inl (GoError ''json: unsupported value'' None)\<rparr>)
     stub_request (stub_world ''https://api.example.com'')
   = (Return (None,
        Some (GoError ''|client error:  serializing request body -> json: unsupported value''
                (Some (GoError ''json: unsupported value'' None)))),
      stub_world ''https://api.example.com'')"
proof -
  have m: "json_Marshal
             (stub_lib\<lparr>json_Marshal := \<lambda>v. Inl (GoError ''json: unsupported value'' None)\<rparr>)
             (CreateRuntimeGroupRequest_json stub_request)
           = Inl (GoError ''json: unsupported value'' None)"
    by simp
  show ?thesis
    using CreateRuntimeGroup_unserializable [OF m, of "stub_world ''https://api.example.com''"]
    by (simp add: wrap_def)
qed

section \<open>The provider\<close>

lemma fold_update_distinct:
  "distinct (map fst es) \<Longrightarrow>
   fold (\<lambda>(k, v) labels. labels(k \<mapsto> f v)) es m k
     = (case map_of es k of Some v \<Rightarrow> Some (f v) | None \<Rightarrow> m k)"
proof (induction es arbitrary: m)
  case Nil
  then show ?case by simp
next
  case (Cons e es)
  obtain k' v' where e: "e = (k', v')" by (cases e)
  from Cons.prems e have d: "distinct (map fst es)" and n: "k' \<notin> fst ` set es" by auto
  from n have "map_of es k' = None" by (simp add: map_of_eq_None_iff)
  with Cons.IH [OF d] e show ?case by (auto split: option.splits)
qed

lemma HasError_append: "HasError (a @ b) = (HasError a \<or> HasError b)"
  by (simp add: HasError_def)

text \<open>
  Claim C2. \<open>Schema\<close> compiles the pattern of the label keys with
  \<open>regexp.MustCompile\<close> while it builds the schema. When \<open>regexp.Compile\<close> rejects the
  pattern, as Go's \<open>regexp\<close> does for a group that opens with \<open>(?!\<close>, \<open>Schema\<close> panics:
  no schema is assigned and no validator is built.
\<close>

theorem Schema_panics:
  assumes "regexp_Compile lib ''^(?!kong|konnect|mesh|kic).{1,63}$'' = Inl err"
  shows "Schema lib = Panic (''regexp: Compile(`^(?!kong|konnect|mesh|kic).{1,63}$`): '' @ Error err)"
  using assms by (simp add: Schema_def regexp_MustCompile_def labels_key_pattern_def)

theorem Schema_panics_witness:
  "Schema stub_lib =
     Panic (''regexp: Compile(`^(?!kong|konnect|mesh|kic).{1,63}$`): '' @
            ''error parsing regexp: invalid or unsupported Perl syntax: `(?!`'')"
proof -
  have c: "regexp_Compile stub_lib ''^(?!kong|konnect|mesh|kic).{1,63}$''
           = Inl (GoError ''error parsing regexp: invalid or unsupported Perl syntax: `(?!`'' None)"
    by (simp add: stub_lib_def)
  show ?thesis
    using Schema_panics [OF c] by simp
qed

text \<open>
  Claim C9. When \<open>Create\<close> returns and the diagnostics of the response have no error,
  the state holds a model whose \<open>id\<close> is the \<open>name\<close> of the plan, whatever the remote
  end answered.
\<close>

theorem Create_state_Id:
  assumes "fst (Create lib req resp w) = Return resp'"
    and "\<not> HasError (Diagnostics resp')"
  shows "map_option RuntimeGroupModel.Id (State resp')
           = Some (RuntimeGroupModel.Name (fst (Plan req)))"
  using assms
  by (auto simp: Create_def Let_def HasError_append HasError_def
        split: if_splits prod.splits outcome.splits option.splits)

theorem Create_state_Id_witness:
  "fst (Create stub_lib \<lparr>Plan = (stub_plan, [])\<rparr> \<lparr>Diagnostics = [], State = None\<rparr>
          (stub_world ''https://api.example.com''))
     = Return \<lparr>Diagnostics = [],
               State = Some (stub_plan
                 \<lparr>RuntimeGroupModel.ControlPlaneEndpoint := StringValue ''https://cp.example.com'',
                  RuntimeGroupModel.TelemetryEndpoint := StringValue ''https://tp.example.com'',
                  Id := StringValue ''prod''\<rparr>)\<rparr>
   \<and> map_option RuntimeGroupModel.Id
        (State \<lparr>Diagnostics = [],
                State = Some (stub_plan
                  \<lparr>RuntimeGroupModel.ControlPlaneEndpoint := StringValue ''https://cp.example.com'',
                   RuntimeGroupModel.TelemetryEndpoint := StringValue ''https://tp.example.com'',
                   Id := StringValue ''prod''\<rparr>)\<rparr>)
     = Some (StringValue ''prod'')
   \<and> string_at stub_decoded [''id''] = ''0fd7b9bc''"
proof -
  let ?resp = "\<lparr>Diagnostics = [],
                State = Some (stub_plan
                  \<lparr>RuntimeGroupModel.ControlPlaneEndpoint := StringValue ''https://cp.example.com'',
                   RuntimeGroupModel.TelemetryEndpoint := StringValue ''https://tp.example.com'',
                   Id := StringValue ''prod''\<rparr>)\<rparr>"
  have r: "fst (Create stub_lib \<lparr>Plan = (stub_plan, [])\<rparr> \<lparr>Diagnostics = [], State = None\<rparr>
                  (stub_world ''https://api.example.com'')) = Return ?resp"
    by (simp add: Create_def CreateRuntimeGroup_def do_def Let_def HasError_def codeToErr_def
          CreateRuntimeGroupResponse_json_def stub_lib_def stub_world_def stub_decoded_def
          stub_plan_def is_control_def runtimeGroupEndpoint_def createRuntimeGroupMethod_def)
  have e: "\<not> HasError (Diagnostics ?resp)"
    by (simp add: HasError_def)
  have n: "RuntimeGroupModel.Name (fst (Plan \<lparr>Plan = (stub_plan, [])\<rparr>)) = StringValue ''prod''"
    by (simp add: stub_plan_def)
  show ?thesis
    using r Create_state_Id [OF r e] n by (simp add: stub_decoded_def)
qed

lemma Create_world:
  "snd (Create lib req resp w) =
     (if HasError (Diagnostics resp @ snd (Plan req)) then w
      else snd (CreateRuntimeGroup lib (Create_createReq lib (fst (Plan req))) w))"
  by (auto simp: Create_def Let_def split: prod.splits outcome.splits option.splits)

lemma Create_labels_distinct:
  "distinct (map fst es) \<Longrightarrow>
   Create_labels lib es = (\<lambda>k. map_option (attr_String lib) (map_of es k))"
  by (rule ext) (simp add: Create_labels_def fold_update_distinct split: option.splits)

text \<open>
  Claim C10. Whenever \<open>Create\<close> hands a request to the transport, the body of that
  request is the serialisation of the object whose \<open>name\<close>, \<open>description\<close> and
  \<open>cluster_type\<close> are the raw strings \<open>ValueString()\<close> of the plan and whose \<open>labels\<close>
  map each key of the plan's labels to \<open>String()\<close> of its value, and have no other key:
  for the labels the raw value \<open>ValueString()\<close> is not used. (The keys of a Go map are
  distinct.)
\<close>

theorem Create_labels_String:
  assumes "distinct (map fst (Elements (RuntimeGroupModel.Labels (fst (Plan req)))))"
    and "outbound (snd (Create lib req resp w)) = outbound w @ [hreq]"
  shows "json_Marshal lib
           (JObject
              [(''name'', JString (ValueString (RuntimeGroupModel.Name (fst (Plan req))))),
               (''description'',
                JString (ValueString (RuntimeGroupModel.Description (fst (Plan req))))),
               (''cluster_type'',
                JString (ValueString (RuntimeGroupModel.ClusterType (fst (Plan req))))),
               (''labels'',
                JStringMap (\<lambda>k. map_option (attr_String lib)
                  (map_of (Elements (RuntimeGroupModel.Labels (fst (Plan req)))) k)))])
         = Inr (Request.Body hreq)"
proof -
  let ?data = "fst (Plan req)"
  from assms(2) have "\<not> HasError (Diagnostics resp @ snd (Plan req))"
    by (auto simp: Create_world)
  with assms(2)
  have "outbound (snd (CreateRuntimeGroup lib (Create_createReq lib ?data) w))
          = outbound w @ [hreq]"
    by (simp add: Create_world)
  from CreateRuntimeGroup_sent [OF this] obtain bytes where
    m: "json_Marshal lib (CreateRuntimeGroupRequest_json (Create_createReq lib ?data)) = Inr bytes"
    and b: "Request.Body hreq = bytes"
    by auto
  from m b show ?thesis
    by (simp add: CreateRuntimeGroupRequest_json_def Create_createReq_def
          Create_labels_distinct [OF assms(1)])
qed

theorem Create_labels_String_witness:
  "outbound (snd (Create stub_lib \<lparr>Plan = (stub_plan, [])\<rparr> \<lparr>Diagnostics = [], State = None\<rparr>
                    (stub_world ''https://api.example.com'')))
     = [\<lparr>Method = ''POST'', URL = ''https://api.example.com/create-runtime-group'',
         Header = [''Content-Type'' \<mapsto> ''application/json'',
                   ''Authorization'' \<mapsto> ''Bearer a.b.c''],
         Body = ''<request>''\<rparr>]
   \<and> json_Marshal stub_lib
       (JObject
          [(''name'', JString ''prod''),
           (''description'', JString ''production gateways''),
           (''cluster_type'', JString []),
           (''labels'',
            JStringMap (\<lambda>k. map_option (attr_String stub_lib)
              (map_of [(''env'', StringValue ''prod''), (''team'', StringNull)] k)))])
     = Inr ''<request>''
   \<and> map_option (attr_String stub_lib)
        (map_of [(''env'', StringValue ''prod''), (''team'', StringNull)] ''env'')
     = Some [CHR 0x22, CHR ''p'', CHR ''r'', CHR ''o'', CHR ''d'', CHR 0x22]
   \<and> map_option (attr_String stub_lib)
        (map_of [(''env'', StringValue ''prod''), (''team'', StringNull)] ''team'')
     = Some ''<null>''
   \<and> ValueString (StringValue ''prod'') = ''prod''"
proof -
  let ?req = "\<lparr>Plan = (stub_plan, [])\<rparr>"
  let ?hreq = "\<lparr>Method = ''POST'', URL = ''https://api.example.com/create-runtime-group'',
                Header = [''Content-Type'' \<mapsto> ''application/json'',
                          ''Authorization'' \<mapsto> ''Bearer a.b.c''],
                Body = ''<request>''\<rparr>"
  have d: "distinct (map fst (Elements (RuntimeGroupModel.Labels (fst (Plan ?req)))))"
    by (simp add: stub_plan_def Elements_def)
  have sent: "outbound (snd (Create stub_lib ?req \<lparr>Diagnostics = [], State = None\<rparr>
                               (stub_world ''https://api.example.com'')))
              = outbound (stub_world ''https://api.example.com'') @ [?hreq]"
    by (simp add: Create_def CreateRuntimeGroup_def do_def Let_def HasError_def codeToErr_def
          stub_lib_def stub_world_def is_control_def runtimeGroupEndpoint_def
          createRuntimeGroupMethod_def)
  have o: "outbound (stub_world ''https://api.example.com'') = []"
    by (simp add: stub_world_def)
  from Create_labels_String [OF d sent]
  have "json_Marshal stub_lib
          (JObject
             [(''name'', JString ''prod''),
              (''description'', JString ''production gateways''),
              (''cluster_type'', JString []),
              (''labels'',
               JStringMap (\<lambda>k. map_option (attr_String stub_lib)
                 (map_of [(''env'', StringValue ''prod''), (''team'', StringNull)] k)))])
        = Inr ''<request>''"
    by (simp add: stub_plan_def Elements_def ValueString_def)
  moreover from sent o
  have "outbound (snd (Create stub_lib ?req \<lparr>Diagnostics = [], State = None\<rparr>
                         (stub_world ''https://api.example.com''))) = [?hreq]"
    by simp
  moreover
  have "map_option (attr_String stub_lib)
          (map_of [(''env'', StringValue ''prod''), (''team'', StringNull)] ''env'')
        = Some [CHR 0x22, CHR ''p'', CHR ''r'', CHR ''o'', CHR ''d'', CHR 0x22]"
       "map_option (attr_String stub_lib)
          (map_of [(''env'', StringValue ''prod''), (''team'', StringNull)] ''team'')
        = Some ''<null>''"
       "ValueString (StringValue ''prod'') = ''prod''"
    by (simp_all add: stub_lib_def ValueString_def)
  ultimately show ?thesis
    by (intro conjI)
qed

end
